theory Spec2Isabelle
  imports Complex_Main
begin

section \<open>The training-loop controller of \<open>main_CNN2D.py\<close>\<close>

text \<open>
  The development embeds the function \<open>main\<close> of
  \<open>src/models/T3_style_lim100/src/main_CNN2D.py\<close>: the seeding prologue (lines 27-31),
  the \<open>try\<close> block with the epoch loop (lines 60-82), the \<open>except KeyboardInterrupt\<close>
  handler (lines 83-88) and the reporting loop (lines 99-112). The prologue is \<open>seeding\<close>;
  \<open>main\<close> below is the program from line 60 on, for the runs whose prologue has returned.

  Python's local variables \<open>epoch\<close>, \<open>save_ep\<close> and \<open>save_model_dir\<close> are bound only by
  the statements that assign them; reading one before that raises \<open>UnboundLocalError\<close>.
  They are therefore options, and every read is a branch that may fail.
\<close>

subsection \<open>Python values, errors and paths\<close>

datatype py_error = UnboundLocalError string | ValueError string

text \<open>
  A \<open>pathlib.Path\<close> is the list of its components; \<open>p / name\<close> appends one component
  (all names joined here are single components without a separator).
\<close>

type_synonym path = "string list"

definition path_div :: "path \<Rightarrow> string \<Rightarrow> path" where
  "path_div p name = p @ [name]"

subsection \<open>The format specification \<open>:05\<close>\<close>

text \<open>
  \<open>f'{n:05}'\<close> for an integer: decimal digits, sign-aware zero padding to a total
  width of 5 (the sign counts), never truncating. So \<open>7\<close> gives \<open>00007\<close>, \<open>-1\<close> gives
  \<open>-0001\<close> and \<open>123456\<close> gives \<open>123456\<close>.
\<close>

definition digit_char :: "nat \<Rightarrow> char" where
  "digit_char d = ''0123456789'' ! d"

fun digits :: "nat \<Rightarrow> string" where
  "digits n = (if n < 10 then [digit_char n] else digits (n div 10) @ [digit_char (n mod 10)])"

declare digits.simps [simp del]

definition zero_pad :: "nat \<Rightarrow> string \<Rightarrow> string" where
  "zero_pad w s = replicate (w - length s) (CHR ''0'') @ s"

definition fmt05 :: "int \<Rightarrow> string" where
  "fmt05 n = (if n < 0 then CHR ''-'' # zero_pad 4 (digits (nat (- n)))
              else zero_pad 5 (digits (nat n)))"

text \<open>Lines 73, 80 and 88: \<open>log_dir / f'epoch{n:05}.pt'\<close>.\<close>

definition ckpt_path :: "path \<Rightarrow> int \<Rightarrow> path" where
  "ckpt_path log_dir n = path_div log_dir (''epoch'' @ fmt05 n @ ''.pt'')"

subsection \<open>Configuration and seeding (lines 27-31)\<close>

record config =
  cfg_seed :: int
  cfg_epoch :: int
  cfg_patience :: int
  log_dir :: path

text \<open>
  \<open>device\<close> is a \<open>torch.device\<close> object, the guard of line 30 compares it with a \<open>str\<close>.
  Python's \<open>==\<close> between objects of two classes neither of which implements the
  comparison with the other falls back to identity and is \<open>False\<close>; \<open>torch.device\<close>
  compares only with \<open>torch.device\<close>.
\<close>

datatype py_value = Str string | Device string

fun py_eq :: "py_value \<Rightarrow> py_value \<Rightarrow> bool" where
  "py_eq (Str a) (Str b) = (a = b)"
| "py_eq (Device a) (Device b) = (a = b)"
| "py_eq _ _ = False"

datatype seed_call = NpRandomSeed int | TorchManualSeed int | TorchCudaManualSeed int

text \<open>Line 27; the argument is the value of \<open>torch.cuda.is_available()\<close>.\<close>

definition select_device :: "bool \<Rightarrow> py_value" where
  "select_device cuda_is_available = (if cuda_is_available then Device ''cuda'' else Device ''cpu'')"

text \<open>
  Lines 28-31: the seeding calls made, in order. \<open>np.random.seed\<close> accepts an integer only
  between 0 and \<open>2\<^sup>3\<^sup>2 - 1\<close> and raises \<open>ValueError\<close> otherwise, which ends \<open>main\<close> at
  line 28; every seed it accepts is accepted by \<open>torch.manual_seed\<close> too.
\<close>

definition seeding :: "config \<Rightarrow> bool \<Rightarrow> py_error + seed_call list" where
  "seeding cfg cuda_is_available =
     (let device = select_device cuda_is_available in
      if cfg_seed cfg < 0 \<or> 2 ^ 32 \<le> cfg_seed cfg
      then Inl (ValueError ''Seed must be between 0 and 2**32 - 1'')
      else Inr ([NpRandomSeed (cfg_seed cfg), TorchManualSeed (cfg_seed cfg)] @
                (if py_eq device (Str ''cuda'') then [TorchCudaManualSeed (cfg_seed cfg)] else [])))"

text \<open>
  The generators that a seeding call seeds. \<open>np.random.seed\<close> seeds NumPy's global
  generator. \<open>torch.manual_seed\<close> seeds the default CPU generator and, through
  \<open>torch.cuda.manual_seed_all\<close>, the generators of the CUDA devices;
  \<open>torch.cuda.manual_seed\<close> seeds that of the current CUDA device. Without CUDA the two
  have no CUDA generator to seed.
\<close>

datatype generator = NumPyGlobal | TorchCPU | TorchCUDA

fun generators_seeded :: "bool \<Rightarrow> seed_call \<Rightarrow> generator list" where
  "generators_seeded cuda_is_available (NpRandomSeed s) = [NumPyGlobal]"
| "generators_seeded cuda_is_available (TorchManualSeed s) =
     TorchCPU # (if cuda_is_available then [TorchCUDA] else [])"
| "generators_seeded cuda_is_available (TorchCudaManualSeed s) =
     (if cuda_is_available then [TorchCUDA] else [])"

subsection \<open>The collaborators of the loop\<close>

text \<open>
  \<open>EarlyStopping\<close> (imported from \<open>utils.evaluate\<close>) is used through three operations:
  the constructor of line 66, the call of line 73 and the attribute \<open>early_stop\<close> read
  at line 74. The loop is written against any implementation of the three; the state
  \<open>'es\<close> holds everything the call may change (the object and the files it writes).
\<close>

record ('l, 'es) EarlyStopping_class =
  init :: "int \<Rightarrow> 'es"
  call :: "'es \<Rightarrow> 'l \<Rightarrow> path \<Rightarrow> 'es"
  early_stop :: "'es \<Rightarrow> bool"

text \<open>
  What happens in the body of one iteration (lines 68-81). \<open>train_model\<close> and
  \<open>eval_model\<close> are external; \<open>eval_model\<close> returns the validation loss. A
  \<open>KeyboardInterrupt\<close> can be raised before the call of line 73 has taken effect
  (during training, validation or the scheduler step) or after it has returned.
\<close>

datatype 'l body_outcome = Returns 'l | KbdBeforeES | KbdAfterES 'l

record 'l env =
  kbd_before_loop :: bool
  body :: "nat \<Rightarrow> 'l body_outcome"
  kbd_at_done :: bool

text \<open>
  \<open>kbd_before_loop\<close>: the interrupt arrives in lines 61-67 before \<open>epoch\<close> is first
  bound; \<open>kbd_at_done\<close>: it arrives at line 82, after the loop has been left. An
  interrupt outside the \<open>try\<close> block is not caught by the handler and ends the process;
  it is not part of a run here. \<open>train_model\<close>, \<open>eval_model\<close>, \<open>scheduler.step\<close> and the
  call of \<open>earlystopping\<close> are taken to return unless interrupted.
\<close>

record 'es locals =
  epoch :: "int option"
  save_ep :: "int option"
  save_model_dir :: "path option"
  earlystopping :: 'es

datatype exit_kind = Exhausted | Broke | Raised

subsection \<open>The epoch loop (lines 67-81)\<close>

fun for_loop ::
  "('l, 'es) EarlyStopping_class \<Rightarrow> config \<Rightarrow> 'l env \<Rightarrow> nat list \<Rightarrow> 'es locals
     \<Rightarrow> exit_kind \<times> 'es locals" where
  "for_loop ES cfg ev [] st = (Exhausted, st)"
| "for_loop ES cfg ev (e # es) st =
     (let st1 = st\<lparr>epoch := Some (int e)\<rparr> in
      case body ev e of
        KbdBeforeES \<Rightarrow> (Raised, st1)
      | KbdAfterES l \<Rightarrow>
          (Raised, st1\<lparr>earlystopping :=
             call ES (earlystopping st1) l (ckpt_path (log_dir cfg) (int e))\<rparr>)
      | Returns l \<Rightarrow>
          (let st2 = st1\<lparr>earlystopping :=
                 call ES (earlystopping st1) l (ckpt_path (log_dir cfg) (int e))\<rparr> in
           if early_stop ES (earlystopping st2)
           then (Broke, st2\<lparr>save_ep := Some (int e - cfg_patience cfg),
                            save_model_dir :=
                              Some (ckpt_path (log_dir cfg) (int e - cfg_patience cfg))\<rparr>)
           else for_loop ES cfg ev es st2))"

text \<open>Line 66 and the unbound locals at the start of the \<open>try\<close> block.\<close>

definition init_locals :: "('l, 'es) EarlyStopping_class \<Rightarrow> config \<Rightarrow> 'es locals" where
  "init_locals ES cfg =
     \<lparr>epoch = None, save_ep = None, save_model_dir = None,
      earlystopping = init ES (cfg_patience cfg)\<rparr>"

text \<open>The \<open>try\<close> block, lines 60-82: \<open>range(cfg.epoch)\<close> is empty for \<open>cfg.epoch \<le> 0\<close>.\<close>

definition try_block ::
  "('l, 'es) EarlyStopping_class \<Rightarrow> config \<Rightarrow> 'l env \<Rightarrow> exit_kind \<times> 'es locals" where
  "try_block ES cfg ev =
     (if kbd_before_loop ev then (Raised, init_locals ES cfg)
      else let r = for_loop ES cfg ev [0 ..< nat (cfg_epoch cfg)] (init_locals ES cfg) in
           if fst r \<noteq> Raised \<and> kbd_at_done ev then (Raised, snd r) else r)"

text \<open>The handler, lines 83-88: \<open>save_ep = epoch - 1\<close> reads \<open>epoch\<close>.\<close>

definition except_KeyboardInterrupt :: "config \<Rightarrow> 'es locals \<Rightarrow> py_error + 'es locals" where
  "except_KeyboardInterrupt cfg st =
     (case epoch st of
        None \<Rightarrow> Inl (UnboundLocalError ''epoch'')
      | Some e \<Rightarrow> Inr (st\<lparr>save_ep := Some (e - 1),
                          save_model_dir := Some (ckpt_path (log_dir cfg) (e - 1))\<rparr>))"

definition train_stage ::
  "('l, 'es) EarlyStopping_class \<Rightarrow> config \<Rightarrow> 'l env \<Rightarrow> py_error + 'es locals" where
  "train_stage ES cfg ev =
     (case try_block ES cfg ev of
        (Raised, st) \<Rightarrow> except_KeyboardInterrupt cfg st
      | (_, st) \<Rightarrow> Inr st)"

subsection \<open>The reporting loop (lines 99-112)\<close>

text \<open>
  One record per call of \<open>ConfusionMatrix\<close>, holding the arguments that depend on the
  loop: the split, \<open>model_PATH\<close>, \<open>save_name\<close> and \<open>save_dir_name\<close>. The keyword arguments
  are evaluated in the order written, so \<open>save_model_dir\<close> is read before \<open>save_ep\<close>.
  \<open>ConfusionMatrix\<close> itself is external: the model records the call and takes it to return.
\<close>

record invocation =
  phase :: string
  model_PATH :: path
  save_name :: string
  save_dir_name :: path

definition phaze :: "string list" where
  "phaze = [''train'', ''val'', ''test'']"

definition ConfusionMatrix_call ::
  "config \<Rightarrow> 'es locals \<Rightarrow> string \<Rightarrow> py_error + invocation" where
  "ConfusionMatrix_call cfg st ph =
     (case save_model_dir st of
        None \<Rightarrow> Inl (UnboundLocalError ''save_model_dir'')
      | Some p \<Rightarrow>
          (case save_ep st of
             None \<Rightarrow> Inl (UnboundLocalError ''save_ep'')
           | Some n \<Rightarrow>
               Inr \<lparr>phase = ph, model_PATH = p,
                    save_name = ph @ ''_'' @ fmt05 n,
                    save_dir_name = path_div (log_dir cfg) (''miss_'' @ ph @ ''_'' @ fmt05 n)\<rparr>))"

fun report_loop ::
  "config \<Rightarrow> 'es locals \<Rightarrow> string list \<Rightarrow> invocation list \<Rightarrow> py_error + invocation list" where
  "report_loop cfg st [] done = Inr done"
| "report_loop cfg st (ph # phs) done =
     (case ConfusionMatrix_call cfg st ph of
        Inl err \<Rightarrow> Inl err
      | Inr c \<Rightarrow> report_loop cfg st phs (done @ [c]))"

definition report_stage :: "config \<Rightarrow> 'es locals \<Rightarrow> py_error + invocation list" where
  "report_stage cfg st = report_loop cfg st phaze []"

text \<open>
  \<open>main\<close>: the calls of \<open>ConfusionMatrix\<close> made, or the exception that leaves \<open>main\<close>
  (an uncaught exception ends the process with a non-zero status).
\<close>

definition main :: "('l, 'es) EarlyStopping_class \<Rightarrow> config \<Rightarrow> 'l env \<Rightarrow> py_error + invocation list" where
  "main ES cfg ev =
     (case train_stage ES cfg ev of
        Inl err \<Rightarrow> Inl err
      | Inr st \<Rightarrow> report_stage cfg st)"

text \<open>
  The three calls of lines 100-112 when \<open>save_model_dir\<close> is bound to \<open>p\<close> and
  \<open>save_ep\<close> to \<open>n\<close>.
\<close>

definition report_calls :: "config \<Rightarrow> path \<Rightarrow> int \<Rightarrow> invocation list" where
  "report_calls cfg p n =
     map (\<lambda>ph. \<lparr>phase = ph, model_PATH = p, save_name = ph @ ''_'' @ fmt05 n,
                 save_dir_name = path_div (log_dir cfg) (''miss_'' @ ph @ ''_'' @ fmt05 n)\<rparr>)
       [''train'', ''val'', ''test'']"

subsection \<open>Describing a run by what its environment does\<close>

text \<open>
  Auxiliary notions for stating properties of runs. \<open>es_after ES cfg ev i\<close> is the
  state of the \<open>EarlyStopping\<close> object after the iterations \<open>0, \<dots>, i - 1\<close>;
  iteration \<open>i\<close> \<open>completes\<close> when its body returns and \<open>early_stop\<close> is then false, so
  that the loop goes on; the loop \<open>reaches\<close> iteration \<open>e\<close> when all earlier ones
  complete. \<open>at_epoch\<close> gives the local variables at that moment.
\<close>

fun es_after :: "('l, 'es) EarlyStopping_class \<Rightarrow> config \<Rightarrow> 'l env \<Rightarrow> nat \<Rightarrow> 'es" where
  "es_after ES cfg ev 0 = init ES (cfg_patience cfg)"
| "es_after ES cfg ev (Suc i) =
     (case body ev i of
        Returns l \<Rightarrow> call ES (es_after ES cfg ev i) l (ckpt_path (log_dir cfg) (int i))
      | KbdAfterES l \<Rightarrow> call ES (es_after ES cfg ev i) l (ckpt_path (log_dir cfg) (int i))
      | KbdBeforeES \<Rightarrow> es_after ES cfg ev i)"

definition completes :: "('l, 'es) EarlyStopping_class \<Rightarrow> config \<Rightarrow> 'l env \<Rightarrow> nat \<Rightarrow> bool" where
  "completes ES cfg ev i =
     (case body ev i of
        Returns l \<Rightarrow> \<not> early_stop ES (es_after ES cfg ev (Suc i))
      | _ \<Rightarrow> False)"

definition reaches :: "('l, 'es) EarlyStopping_class \<Rightarrow> config \<Rightarrow> 'l env \<Rightarrow> nat \<Rightarrow> bool" where
  "reaches ES cfg ev e = list_all (completes ES cfg ev) [0 ..< e]"

definition at_epoch :: "('l, 'es) EarlyStopping_class \<Rightarrow> config \<Rightarrow> 'l env \<Rightarrow> nat \<Rightarrow> 'es locals" where
  "at_epoch ES cfg ev e =
     \<lparr>epoch = (if e = 0 then None else Some (int e - 1)), save_ep = None, save_model_dir = None,
      earlystopping = es_after ES cfg ev e\<rparr>"


section \<open>The early-stopping policy\<close>

text \<open>
  Modelled from the spec: the class \<open>EarlyStopping\<close> of \<open>utils/evaluate.py\<close> is missing
  from the sources; only its construction (line 66), its call (line 73) and the read of
  \<open>early_stop\<close> (line 74) are there. The policy below follows the specification's
  section 4.1: state \<open>best_score\<close> (initially \<open>+\<infinity>\<close>, here \<open>None\<close>), \<open>counter\<close>
  (initially 0), a configured \<open>patience\<close> and \<open>min_delta\<close> (0 if unspecified). Scores are
  finite reals.
\<close>

datatype decision = Continue | Stop

text \<open>
  Modelled from the spec: the state of the policy (the class itself is missing from the
  sources): the configured \<open>patience\<close> and \<open>min_delta\<close>, \<open>best_score\<close> with \<open>None\<close> for
  \<open>+\<infinity>\<close>, the patience \<open>counter\<close>, an integer that is never negative, and the
  \<open>stop_epoch\<close>, absent until the policy stops.
\<close>

record policy =
  patience :: int
  min_delta :: real
  best_score :: "real option"
  counter :: nat
  stop_epoch :: "nat option"

text \<open>
  Modelled from the spec: the initial state (the constructor is missing from the
  sources): best score \<open>+\<infinity>\<close>, counter 0, \<open>min_delta\<close> unspecified and so 0.
\<close>

definition new_policy :: "int \<Rightarrow> policy" where
  "new_policy pat =
     \<lparr>patience = pat, min_delta = 0, best_score = None, counter = 0, stop_epoch = None\<rparr>"

text \<open>
  Modelled from the spec: \<open>current_score < best_score - min_delta\<close>, strict, and always
  true against the initial \<open>+\<infinity>\<close>.
\<close>

definition improvement :: "real \<Rightarrow> policy \<Rightarrow> bool" where
  "improvement current_score p =
     (case best_score p of None \<Rightarrow> True | Some b \<Rightarrow> current_score < b - min_delta p)"

text \<open>
  Modelled from the spec: \<open>evaluate(current_score, epoch)\<close>. On improvement record the
  score, reset the counter and continue; otherwise increment the counter and stop, with
  \<open>stop_epoch = epoch\<close>, when \<open>counter \<ge> patience\<close>.
\<close>

definition evaluate :: "real \<Rightarrow> nat \<Rightarrow> policy \<Rightarrow> decision \<times> policy" where
  "evaluate current_score ep p =
     (if improvement current_score p
      then (Continue, p\<lparr>best_score := Some current_score, counter := 0\<rparr>)
      else (let p' = p\<lparr>counter := counter p + 1\<rparr> in
            if patience p' \<le> int (counter p') then (Stop, p'\<lparr>stop_epoch := Some ep\<rparr>)
            else (Continue, p')))"

text \<open>
  Modelled from the spec: the use of the policy (its caller's loop is in the sources, the
  policy is missing), one evaluation per epoch on a sequence of validation scores until
  the policy returns \<open>Stop\<close>, when the controller leaves the loop: the decisions and the
  states in order.
\<close>

fun feed :: "policy \<Rightarrow> nat \<Rightarrow> real list \<Rightarrow> (decision \<times> policy) list" where
  "feed p ep [] = []"
| "feed p ep (s # ss) =
     (let r = evaluate s ep p in
      if fst r = Stop then [r] else r # feed (snd r) (Suc ep) ss)"

text \<open>
  Modelled from the spec: the object behind lines 66, 73 and 74, whose class is missing
  from the sources. The call of line 73 evaluates the policy on the loss and, as section
  4.1 of the specification has it, persists the checkpoint of the epoch, under the path
  it is given, when the policy recognises an improvement. \<open>main\<close> itself contains no
  save. \<open>checkpoints\<close> lists the files written, in order.
\<close>

record es_object =
  policy :: policy
  stop_flag :: bool
  evaluations :: nat
  checkpoints :: "path list"

text \<open>
  Modelled from the spec: \<open>EarlyStopping(patience=cfg.patience, verbose=True)\<close>, whose code
  is missing: a fresh policy, no stop yet, no file written.
\<close>

definition EarlyStopping_init :: "int \<Rightarrow> es_object" where
  "EarlyStopping_init pat =
     \<lparr>policy = new_policy pat, stop_flag = False, evaluations = 0, checkpoints = []\<rparr>"

text \<open>
  Modelled from the spec: \<open>earlystopping(loss, model, path)\<close>, whose code is missing:
  evaluate the policy, raise \<open>early_stop\<close> when it stops and, on improvement, persist this
  epoch's checkpoint as the current best.
\<close>

definition EarlyStopping_call :: "es_object \<Rightarrow> real \<Rightarrow> path \<Rightarrow> es_object" where
  "EarlyStopping_call obj loss p =
     (let r = evaluate loss (evaluations obj) (policy obj) in
      \<lparr>policy = snd r, stop_flag = (stop_flag obj \<or> fst r = Stop),
       evaluations = evaluations obj + 1,
       checkpoints = (if improvement loss (policy obj) then checkpoints obj @ [p]
                      else checkpoints obj)\<rparr>)"

text \<open>
  Modelled from the spec: the three operations of the missing class \<open>EarlyStopping\<close> that
  \<open>main\<close> uses, put together.
\<close>

definition EarlyStopping_spec :: "(real, es_object) EarlyStopping_class" where
  "EarlyStopping_spec =
     \<lparr>init = EarlyStopping_init, call = EarlyStopping_call, early_stop = stop_flag\<rparr>"

section \<open>Example runs\<close>

text \<open>
  Ten epochs at most, patience 2. In \<open>ev_a\<close> the loss falls in each of the epochs 0 to 4
  and the operator interrupts during epoch 5; in \<open>ev_first\<close> the interrupt comes during
  epoch 0, in \<open>ev_pre\<close> before the loop has bound \<open>epoch\<close>; in \<open>ev_c\<close> the losses are
  5, 4, 4, 4, \<dots> and nobody interrupts; \<open>ev_c_done\<close> is \<open>ev_c\<close> with an interrupt at
  line 82, after the loop has been left. \<open>cfg_neg\<close> has a negative seed.
\<close>

definition cfg_a :: config where
  "cfg_a = \<lparr>cfg_seed = 0, cfg_epoch = 10, cfg_patience = 2, log_dir = [''logs'', ''run'']\<rparr>"

definition ev_a :: "real env" where
  "ev_a = \<lparr>kbd_before_loop = False,
           body = (\<lambda>i. if i < 5 then Returns (10 - real i) else KbdBeforeES),
           kbd_at_done = False\<rparr>"

definition ev_first :: "real env" where
  "ev_first = \<lparr>kbd_before_loop = False, body = (\<lambda>i. KbdBeforeES), kbd_at_done = False\<rparr>"

definition ev_pre :: "real env" where
  "ev_pre = \<lparr>kbd_before_loop = True, body = (\<lambda>i. KbdBeforeES), kbd_at_done = False\<rparr>"



definition cfg_neg :: config where
  "cfg_neg = \<lparr>cfg_seed = - 1, cfg_epoch = 10, cfg_patience = 2, log_dir = [''logs'', ''run'']\<rparr>"

text \<open>
  Runs that complete every configured epoch: three epochs with patience 5 and losses
  3, 2, 1; two epochs with patience 3 and losses 1, 1.
\<close>

definition cfg_done :: config where
  "cfg_done = \<lparr>cfg_seed = 0, cfg_epoch = 3, cfg_patience = 5, log_dir = [''logs'', ''run'']\<rparr>"

definition ev_done :: "real env" where
  "ev_done = \<lparr>kbd_before_loop = False, body = (\<lambda>i. Returns (3 - real i)), kbd_at_done = False\<rparr>"

definition cfg_b :: config where
  "cfg_b = \<lparr>cfg_seed = 0, cfg_epoch = 2, cfg_patience = 3, log_dir = [''logs'', ''run'']\<rparr>"

definition ev_b :: "real env" where
  "ev_b = \<lparr>kbd_before_loop = False, body = (\<lambda>i. Returns 1), kbd_at_done = False\<rparr>"

section \<open>Seeding\<close>

lemma guard_false: "\<not> py_eq (select_device cuda_is_available) (Str ''cuda'')"
  by (simp add: select_device_def)

lemma seeding_calls:
  "seeding cfg cuda_is_available =
     (if cfg_seed cfg < 0 \<or> 2 ^ 32 \<le> cfg_seed cfg
      then Inl (ValueError ''Seed must be between 0 and 2**32 - 1'')
      else Inr [NpRandomSeed (cfg_seed cfg), TorchManualSeed (cfg_seed cfg)])"
  by (simp add: seeding_def guard_false)

text \<open>
  C9, as the program has it. Whatever the configuration and whether or not CUDA is
  available, the guard of line 30 is false and \<open>torch.cuda.manual_seed\<close> is never called:
  \<open>main\<close> calls \<open>np.random.seed\<close> and, when NumPy accepts the seed, \<open>torch.manual_seed\<close>,
  and nothing else; otherwise it ends at line 28 with \<open>ValueError\<close>. With CUDA available
  the two calls seed the NumPy, the CPU and the CUDA generators, without CUDA the NumPy
  and the CPU generators.
\<close>

theorem cuda_seed_branch_dead:
  "\<not> py_eq (select_device cuda_is_available) (Str ''cuda'') \<and>
   (\<forall>calls. seeding cfg cuda_is_available = Inr calls \<longrightarrow> TorchCudaManualSeed s \<notin> set calls) \<and>
   seeding cfg cuda_is_available =
     (if cfg_seed cfg < 0 \<or> 2 ^ 32 \<le> cfg_seed cfg
      then Inl (ValueError ''Seed must be between 0 and 2**32 - 1'')
      else Inr [NpRandomSeed (cfg_seed cfg), TorchManualSeed (cfg_seed cfg)]) \<and>
   (\<forall>calls. seeding cfg True = Inr calls \<longrightarrow>
      set (concat (map (generators_seeded True) calls)) = {NumPyGlobal, TorchCPU, TorchCUDA}) \<and>
   (\<forall>calls. seeding cfg False = Inr calls \<longrightarrow>
      set (concat (map (generators_seeded False) calls)) = {NumPyGlobal, TorchCPU})"
proof -
  have "TorchCudaManualSeed s \<notin> set calls" if "seeding cfg cuda_is_available = Inr calls" for calls
    using that by (auto simp: seeding_calls split: if_splits)
  moreover have "set (concat (map (generators_seeded True) calls)) = {NumPyGlobal, TorchCPU, TorchCUDA}"
    if "seeding cfg True = Inr calls" for calls
    using that by (auto simp: seeding_calls split: if_splits)
  moreover have "set (concat (map (generators_seeded False) calls)) = {NumPyGlobal, TorchCPU}"
    if "seeding cfg False = Inr calls" for calls
    using that by (auto simp: seeding_calls split: if_splits)
  ultimately show ?thesis
    using guard_false [of cuda_is_available] seeding_calls [of cfg cuda_is_available] by blast
qed

theorem cuda_seed_branch_dead_witness:
  "seeding cfg_a True = Inr [NpRandomSeed 0, TorchManualSeed 0] \<and>
   TorchCudaManualSeed 0 \<notin> set [NpRandomSeed 0, TorchManualSeed 0] \<and>
   set (concat (map (generators_seeded True) [NpRandomSeed 0, TorchManualSeed 0])) =
     {NumPyGlobal, TorchCPU, TorchCUDA}"
proof -
  have c: "seeding cfg_a True = Inr [NpRandomSeed 0, TorchManualSeed 0]"
    using cuda_seed_branch_dead [of True cfg_a 0] by (simp add: cfg_a_def)
  from cuda_seed_branch_dead [of True cfg_a 0] c show ?thesis by blast
qed

text \<open>
  With CUDA available and seed 0 the CUDA generators are seeded as well, by
  \<open>torch.manual_seed\<close>; with the seed -1 no generator is seeded at all.
\<close>

theorem cuda_seed_counterexample:
  "seeding cfg_a True = Inr [NpRandomSeed 0, TorchManualSeed 0] \<and>
   TorchCUDA \<in> set (concat (map (generators_seeded True) [NpRandomSeed 0, TorchManualSeed 0])) \<and>
   seeding cfg_neg True = Inl (ValueError ''Seed must be between 0 and 2**32 - 1'')"
  by (simp add: seeding_calls cfg_a_def cfg_neg_def)

section \<open>Properties of the controller\<close>

subsection \<open>The reporting loop\<close>

lemma report_stage_bound:
  "save_model_dir st = Some p \<Longrightarrow> save_ep st = Some n \<Longrightarrow>
   report_stage cfg st = Inr (report_calls cfg p n)"
  by (simp add: report_stage_def phaze_def ConfusionMatrix_call_def report_calls_def)

lemma report_stage_unbound:
  "save_model_dir st = None \<Longrightarrow> report_stage cfg st = Inl (UnboundLocalError ''save_model_dir'')"
  by (simp add: report_stage_def phaze_def ConfusionMatrix_call_def)

lemma report_calls_shape:
  "map phase (report_calls cfg p n) = [''train'', ''val'', ''test''] \<and>
   map model_PATH (report_calls cfg p n) = [p, p, p]"
  by (simp add: report_calls_def)

subsection \<open>Following the loop to a given epoch\<close>

lemma init_locals_at_epoch: "init_locals ES cfg = at_epoch ES cfg ev 0"
  by (simp add: init_locals_def at_epoch_def)

lemma for_loop_step:
  assumes "completes ES cfg ev a"
  shows "for_loop ES cfg ev (a # rest) (at_epoch ES cfg ev a) = for_loop ES cfg ev rest (at_epoch ES cfg ev (Suc a))"
  using assms by (auto simp: completes_def at_epoch_def Let_def split: body_outcome.splits)

lemma for_loop_skip:
  "list_all (completes ES cfg ev) [a ..< m] \<Longrightarrow> a \<le> m \<Longrightarrow>
   for_loop ES cfg ev ([a ..< m] @ rest) (at_epoch ES cfg ev a) = for_loop ES cfg ev rest (at_epoch ES cfg ev m)"
proof (induction m arbitrary: rest)
  case 0
  then show ?case by simp
next
  case (Suc m)
  show ?case
  proof (cases "a = Suc m")
    case True
    then show ?thesis by simp
  next
    case False
    with Suc.prems have le: "a \<le> m" by simp
    from Suc.prems le have all: "list_all (completes ES cfg ev) [a ..< m]" and c: "completes ES cfg ev m"
      by simp_all
    have "for_loop ES cfg ev ([a ..< Suc m] @ rest) (at_epoch ES cfg ev a)
          = for_loop ES cfg ev ([a ..< m] @ (m # rest)) (at_epoch ES cfg ev a)"
      using le by simp
    also have "\<dots> = for_loop ES cfg ev (m # rest) (at_epoch ES cfg ev m)"
      by (rule Suc.IH [OF all le])
    also have "\<dots> = for_loop ES cfg ev rest (at_epoch ES cfg ev (Suc m))"
      by (rule for_loop_step [OF c])
    finally show ?thesis .
  qed
qed

lemma for_loop_reaches:
  assumes "reaches ES cfg ev e" and "e \<le> n"
  shows "for_loop ES cfg ev [0 ..< n] (init_locals ES cfg) =
         for_loop ES cfg ev [e ..< n] (at_epoch ES cfg ev e)"
proof -
  have "[0 ..< n] = [0 ..< e] @ [e ..< n]"
    using assms(2) by (metis le_add_diff_inverse upt_add_eq_append zero_le)
  then show ?thesis
    using for_loop_skip [of ES cfg ev 0 e "[e ..< n]"] assms(1)
    by (simp add: reaches_def init_locals_at_epoch [of ES cfg ev])
qed

lemma try_block_interrupted:
  assumes "\<not> kbd_before_loop ev" and "int e < cfg_epoch cfg" and "reaches ES cfg ev e"
    and "body ev e = KbdBeforeES \<or> (\<exists>l. body ev e = KbdAfterES l)"
  shows "try_block ES cfg ev =
         (Raised, \<lparr>epoch = Some (int e), save_ep = None, save_model_dir = None,
                   earlystopping = es_after ES cfg ev (Suc e)\<rparr>)"
proof -
  from assms(2) have lt: "e < nat (cfg_epoch cfg)" by simp
  then have "[e ..< nat (cfg_epoch cfg)] = e # [Suc e ..< nat (cfg_epoch cfg)]"
    by (simp add: upt_conv_Cons)
  then have "for_loop ES cfg ev [0 ..< nat (cfg_epoch cfg)] (init_locals ES cfg) =
        for_loop ES cfg ev (e # [Suc e ..< nat (cfg_epoch cfg)]) (at_epoch ES cfg ev e)"
    using for_loop_reaches [OF assms(3), of "nat (cfg_epoch cfg)"] lt by simp
  also have "\<dots> = (Raised, \<lparr>epoch = Some (int e), save_ep = None, save_model_dir = None,
                   earlystopping = es_after ES cfg ev (Suc e)\<rparr>)"
    using assms(4) by (auto simp: at_epoch_def)
  finally show ?thesis using assms(1) by (simp add: try_block_def)
qed

lemma train_stage_interrupted:
  assumes "\<not> kbd_before_loop ev" and "int e < cfg_epoch cfg" and "reaches ES cfg ev e"
    and "body ev e = KbdBeforeES \<or> (\<exists>l. body ev e = KbdAfterES l)"
  shows "train_stage ES cfg ev =
         Inr \<lparr>epoch = Some (int e), save_ep = Some (int e - 1),
              save_model_dir = Some (ckpt_path (log_dir cfg) (int e - 1)),
              earlystopping = es_after ES cfg ev (Suc e)\<rparr>"
  by (simp add: train_stage_def try_block_interrupted [OF assms] except_KeyboardInterrupt_def)

lemma main_interrupted:
  assumes "\<not> kbd_before_loop ev" and "int e < cfg_epoch cfg" and "reaches ES cfg ev e"
    and "body ev e = KbdBeforeES \<or> (\<exists>l. body ev e = KbdAfterES l)"
  shows "main ES cfg ev = Inr (report_calls cfg (ckpt_path (log_dir cfg) (int e - 1)) (int e - 1))"
  by (simp add: main_def train_stage_interrupted [OF assms] report_stage_bound)




lemma try_block_exhausted:
  assumes "\<not> kbd_before_loop ev" and "reaches ES cfg ev (nat (cfg_epoch cfg))"
  shows "try_block ES cfg ev =
         (if kbd_at_done ev then Raised else Exhausted, at_epoch ES cfg ev (nat (cfg_epoch cfg)))"
  using assms(1) for_loop_reaches [OF assms(2), of "nat (cfg_epoch cfg)"]
  by (simp add: try_block_def)

lemma main_exhausted:
  assumes "\<not> kbd_before_loop ev" and "reaches ES cfg ev (nat (cfg_epoch cfg))"
    and "\<not> kbd_at_done ev"
  shows "main ES cfg ev = Inl (UnboundLocalError ''save_model_dir'')"
  using assms(3)
  by (simp add: main_def train_stage_def try_block_exhausted [OF assms(1,2)]
      report_stage_unbound at_epoch_def)

lemma main_kbd_before_loop:
  "kbd_before_loop ev \<Longrightarrow> main ES cfg ev = Inl (UnboundLocalError ''epoch'')"
  by (simp add: main_def train_stage_def try_block_def except_KeyboardInterrupt_def init_locals_def)

subsection \<open>How the loop can be left\<close>




subsection \<open>Checkpoint file names\<close>

lemma fmt05_minus1: "fmt05 (- 1) = ''-0001''"
  by code_simp

lemma digit_char_in: "d < 10 \<Longrightarrow> digit_char d \<in> set ''0123456789''"
  unfolding digit_char_def by (rule nth_mem) simp

lemma digits_set: "set (digits n) \<subseteq> set ''0123456789''"
proof (induction n rule: digits.induct)
  case (1 n)
  show ?case
  proof (cases "n < 10")
    case True
    then show ?thesis using digit_char_in [of n] by (subst digits.simps) simp
  next
    case False
    have "digit_char (n mod 10) \<in> set ''0123456789''" by (rule digit_char_in) simp
    with False 1 show ?thesis by (subst digits.simps) simp
  qed
qed

lemma fmt05_nat_no_sign: "CHR ''-'' \<notin> set (fmt05 (int n))"
  using digits_set [of n] by (auto simp: fmt05_def zero_pad_def)









lemma ckpt_path_never_minus1: "ckpt_path d (int n) \<noteq> ckpt_path d (- 1)"
proof
  assume "ckpt_path d (int n) = ckpt_path d (- 1)"
  then have "fmt05 (int n) = ''-0001''"
    by (simp add: ckpt_path_def path_div_def fmt05_minus1)
  then show False using fmt05_nat_no_sign [of n] by simp
qed

subsection \<open>The example runs, evaluated\<close>

lemmas run_defs =
  completes_def EarlyStopping_spec_def EarlyStopping_call_def EarlyStopping_init_def
  evaluate_def improvement_def new_policy_def Let_def

lemma ev_a_reaches: "reaches EarlyStopping_spec cfg_a ev_a 5"
  by (simp add: reaches_def run_defs cfg_a_def ev_a_def upt_rec eval_nat_numeral)





lemma ev_done_reaches: "reaches EarlyStopping_spec cfg_done ev_done (nat (cfg_epoch cfg_done))"
  by (simp add: reaches_def run_defs cfg_done_def ev_done_def upt_rec eval_nat_numeral)

lemma ev_b_reaches: "reaches EarlyStopping_spec cfg_b ev_b (nat (cfg_epoch cfg_b))"
  by (simp add: reaches_def run_defs cfg_b_def ev_b_def upt_rec eval_nat_numeral)


lemma ckpt_path_examples:
  "ckpt_path [''logs'', ''run''] 0 = [''logs'', ''run'', ''epoch00000.pt'']"
  "ckpt_path [''logs'', ''run''] 1 = [''logs'', ''run'', ''epoch00001.pt'']"
  "ckpt_path [''logs'', ''run''] 2 = [''logs'', ''run'', ''epoch00002.pt'']"
  "ckpt_path [''logs'', ''run''] 4 = [''logs'', ''run'', ''epoch00004.pt'']"
  "ckpt_path [''logs'', ''run''] (- 1) = [''logs'', ''run'', ''epoch-0001.pt'']"
  by code_simp+

subsection \<open>Normal completion\<close>

text \<open>
  C2. A run of three epochs (patience 5, validation losses 3, 2, 1, no interrupt)
  completes every configured epoch: the loop is exhausted with \<open>epoch = 2\<close>, that is
  \<open>max_epoch - 1\<close>. Nothing has bound \<open>save_model_dir\<close>, so the first evaluation of the
  arguments of \<open>ConfusionMatrix\<close> raises \<open>UnboundLocalError\<close>: no report is written and
  \<open>main\<close> ends with an exception instead of returning.
\<close>

theorem completed_run_raises:
  "fst (try_block EarlyStopping_spec cfg_done ev_done) = Exhausted \<and>
   epoch (snd (try_block EarlyStopping_spec cfg_done ev_done)) = Some 2 \<and>
   save_model_dir (snd (try_block EarlyStopping_spec cfg_done ev_done)) = None \<and>
   main EarlyStopping_spec cfg_done ev_done = Inl (UnboundLocalError ''save_model_dir'')"
proof -
  have nk: "\<not> kbd_before_loop ev_done" and nd: "\<not> kbd_at_done ev_done"
    by (simp_all add: ev_done_def)
  have "try_block EarlyStopping_spec cfg_done ev_done =
        (Exhausted, at_epoch EarlyStopping_spec cfg_done ev_done (nat (cfg_epoch cfg_done)))"
    using try_block_exhausted [OF nk ev_done_reaches] nd by simp
  moreover have "nat (cfg_epoch cfg_done) = 3" by (simp add: cfg_done_def)
  ultimately show ?thesis
    using main_exhausted [OF nk ev_done_reaches nd] by (simp add: at_epoch_def)
qed

text \<open>
  C8. A run of two epochs (patience 3, validation losses 1, 1, no interrupt) reaches
  the reporting loop after the loop over the epochs is exhausted; no checkpoint has been
  selected and \<open>ConfusionMatrix\<close> is not called for any split.
\<close>

theorem completed_run_reports_nothing:
  "fst (try_block EarlyStopping_spec cfg_b ev_b) = Exhausted \<and>
   report_stage cfg_b (snd (try_block EarlyStopping_spec cfg_b ev_b)) =
     Inl (UnboundLocalError ''save_model_dir'') \<and>
   main EarlyStopping_spec cfg_b ev_b = Inl (UnboundLocalError ''save_model_dir'')"
proof -
  have nk: "\<not> kbd_before_loop ev_b" and nd: "\<not> kbd_at_done ev_b"
    by (simp_all add: ev_b_def)
  have "try_block EarlyStopping_spec cfg_b ev_b =
        (Exhausted, at_epoch EarlyStopping_spec cfg_b ev_b (nat (cfg_epoch cfg_b)))"
    using try_block_exhausted [OF nk ev_b_reaches] nd by simp
  then show ?thesis
    using main_exhausted [OF nk ev_b_reaches nd]
    by (simp add: at_epoch_def report_stage_unbound)
qed

subsection \<open>Interrupts\<close>

text \<open>
  C6. If the loop reaches epoch \<open>e\<close> and a \<open>KeyboardInterrupt\<close> is raised in the body of
  that iteration, the handler records \<open>save_ep = e - 1\<close>, the epoch before the one
  interrupted, and the three reports are made from the checkpoint of that epoch.
\<close>

theorem interrupt_records_previous_epoch:
  assumes "\<not> kbd_before_loop ev" and "int e < cfg_epoch cfg" and "reaches ES cfg ev e"
    and "body ev e = KbdBeforeES \<or> (\<exists>l. body ev e = KbdAfterES l)"
  shows "train_stage ES cfg ev =
           Inr \<lparr>epoch = Some (int e), save_ep = Some (int e - 1),
                save_model_dir = Some (ckpt_path (log_dir cfg) (int e - 1)),
                earlystopping = es_after ES cfg ev (Suc e)\<rparr> \<and>
         main ES cfg ev =
           Inr (report_calls cfg (ckpt_path (log_dir cfg) (int e - 1)) (int e - 1))"
  using train_stage_interrupted [OF assms] main_interrupted [OF assms] by simp

theorem interrupt_records_previous_epoch_witness:
  "\<not> kbd_before_loop ev_a \<and> int 5 < cfg_epoch cfg_a \<and> reaches EarlyStopping_spec cfg_a ev_a 5 \<and>
   body ev_a 5 = KbdBeforeES \<and>
   map_sum id save_ep (train_stage EarlyStopping_spec cfg_a ev_a) = Inr (Some 4) \<and>
   main EarlyStopping_spec cfg_a ev_a =
     Inr (report_calls cfg_a [''logs'', ''run'', ''epoch00004.pt''] 4)"
proof -
  have h1: "\<not> kbd_before_loop ev_a" by (simp add: ev_a_def)
  have h2: "int 5 < cfg_epoch cfg_a" by (simp add: cfg_a_def)
  have h4: "body ev_a 5 = KbdBeforeES \<or> (\<exists>l. body ev_a 5 = KbdAfterES l)"
    by (simp add: ev_a_def)
  have p: "ckpt_path (log_dir cfg_a) 4 = [''logs'', ''run'', ''epoch00004.pt'']"
    by (simp add: cfg_a_def ckpt_path_examples)
  show ?thesis
    using interrupt_records_previous_epoch [OF h1 h2 ev_a_reaches h4] h1 h2 ev_a_reaches p
    by (simp add: ev_a_def)
qed

text \<open>
  C10. An interrupt in the body of epoch 0 makes the handler compute \<open>save_ep = -1\<close>,
  unclamped, and the reports are requested from \<open>epoch-0001.pt\<close>, a name that the loop
  gives to no epoch (the names it passes at line 73 are those of the indices
  \<open>0, 1, 2, \<dots>\<close>). An interrupt that arrives before \<open>epoch\<close> is first bound leaves the
  handler without an epoch: reading it raises \<open>UnboundLocalError\<close>.
\<close>

theorem interrupt_in_first_epoch:
  "(\<not> kbd_before_loop ev \<and> 0 < cfg_epoch cfg \<and>
      (body ev 0 = KbdBeforeES \<or> (\<exists>l. body ev 0 = KbdAfterES l)) \<longrightarrow>
      train_stage ES cfg ev =
        Inr \<lparr>epoch = Some 0, save_ep = Some (- 1),
             save_model_dir = Some (path_div (log_dir cfg) ''epoch-0001.pt''),
             earlystopping = es_after ES cfg ev (Suc 0)\<rparr> \<and>
      main ES cfg ev = Inr (report_calls cfg (path_div (log_dir cfg) ''epoch-0001.pt'') (- 1)))
   \<and> (\<forall>n::nat. ckpt_path (log_dir cfg) (int n) \<noteq> path_div (log_dir cfg) ''epoch-0001.pt'')
   \<and> (kbd_before_loop ev' \<longrightarrow> main ES cfg ev' = Inl (UnboundLocalError ''epoch''))"
proof -
  have p: "ckpt_path (log_dir cfg) (- 1) = path_div (log_dir cfg) ''epoch-0001.pt''"
    by (simp add: ckpt_path_def fmt05_minus1)
  have r0: "reaches ES cfg ev 0" by (simp add: reaches_def)
  have a: "train_stage ES cfg ev =
        Inr \<lparr>epoch = Some 0, save_ep = Some (- 1),
             save_model_dir = Some (path_div (log_dir cfg) ''epoch-0001.pt''),
             earlystopping = es_after ES cfg ev (Suc 0)\<rparr> \<and>
      main ES cfg ev = Inr (report_calls cfg (path_div (log_dir cfg) ''epoch-0001.pt'') (- 1))"
    if "\<not> kbd_before_loop ev" and "0 < cfg_epoch cfg"
      and "body ev 0 = KbdBeforeES \<or> (\<exists>l. body ev 0 = KbdAfterES l)"
    using train_stage_interrupted [of ev 0 cfg ES, OF that(1) _ r0 that(3)]
      main_interrupted [of ev 0 cfg ES, OF that(1) _ r0 that(3)] that(2) p
    by simp
  have b: "\<forall>n::nat. ckpt_path (log_dir cfg) (int n) \<noteq> path_div (log_dir cfg) ''epoch-0001.pt''"
    using ckpt_path_never_minus1 [of "log_dir cfg"] p by simp
  from a b main_kbd_before_loop [of ev' ES cfg] show ?thesis by blast
qed

theorem interrupt_in_first_epoch_witness:
  "\<not> kbd_before_loop ev_first \<and> 0 < cfg_epoch cfg_a \<and> body ev_first 0 = KbdBeforeES \<and>
   kbd_before_loop ev_pre \<and>
   main EarlyStopping_spec cfg_a ev_first =
     Inr (report_calls cfg_a [''logs'', ''run'', ''epoch-0001.pt''] (- 1)) \<and>
   map save_name (report_calls cfg_a [''logs'', ''run'', ''epoch-0001.pt''] (- 1)) =
     [''train_-0001'', ''val_-0001'', ''test_-0001''] \<and>
   main EarlyStopping_spec cfg_a ev_pre = Inl (UnboundLocalError ''epoch'')"
proof -
  have h: "\<not> kbd_before_loop ev_first \<and> 0 < cfg_epoch cfg_a \<and>
      (body ev_first 0 = KbdBeforeES \<or> (\<exists>l. body ev_first 0 = KbdAfterES l))"
    by (simp add: ev_first_def cfg_a_def)
  have h': "kbd_before_loop ev_pre" by (simp add: ev_pre_def)
  have n: "map save_name (report_calls cfg_a [''logs'', ''run'', ''epoch-0001.pt''] (- 1)) =
     [''train_-0001'', ''val_-0001'', ''test_-0001'']"
    by (simp add: report_calls_def fmt05_minus1)
  from interrupt_in_first_epoch [of ev_first cfg_a EarlyStopping_spec ev_pre] h h' n
  show ?thesis by (simp add: cfg_a_def path_div_def ev_first_def)
qed

subsection \<open>The checkpoint selected for reporting\<close>




section \<open>Properties of the early-stopping policy\<close>

lemma evaluate_counter:
  "counter (snd (evaluate s ep p)) = (if improvement s p then 0 else counter p + 1)"
  by (simp add: evaluate_def Let_def)

lemma evaluate_patience: "patience (snd (evaluate s ep p)) = patience p"
  by (simp add: evaluate_def Let_def)

lemma evaluate_Stop:
  "fst (evaluate s ep p) = Stop \<longleftrightarrow> \<not> improvement s p \<and> patience p \<le> int (counter p) + 1"
  by (simp add: evaluate_def Let_def)

lemma feed_counter:
  assumes "counter p = 0 \<or> int (counter p) < patience p" and "0 \<le> patience p"
    and "(d, q) \<in> set (feed p ep ss)"
  shows "(d = Continue \<longrightarrow> int (counter q) \<le> patience p) \<and>
         (d = Stop \<longrightarrow> int (counter q) = max 1 (patience p))"
  using assms
proof (induction ss arbitrary: p ep)
  case Nil
  then show ?case by simp
next
  case (Cons s ss)
  let ?r = "evaluate s ep p"
  show ?case
  proof (cases "fst ?r = Stop")
    case True
    with Cons.prems(3) have "(d, q) = ?r"
      by (simp add: Let_def)
    then have "d = fst ?r" and q: "q = snd ?r"
      by (metis fst_conv, metis snd_conv)
    with True have dq: "d = Stop" "q = snd ?r"
      by simp_all
    from True have "\<not> improvement s p" and "patience p \<le> int (counter p) + 1"
      by (simp_all add: evaluate_Stop)
    with Cons.prems(1,2) dq show ?thesis
      by (auto simp: evaluate_counter)
  next
    case False
    then have c: "fst ?r = Continue" by (cases "fst ?r") simp_all
    from False have inv: "counter (snd ?r) = 0 \<or> int (counter (snd ?r)) < patience (snd ?r)"
      by (auto simp: evaluate_Stop evaluate_counter evaluate_patience)
    from False Cons.prems(3) consider "(d, q) = ?r" | "(d, q) \<in> set (feed (snd ?r) (Suc ep) ss)"
      by (auto simp: Let_def)
    then show ?thesis
    proof cases
      case 1
      then have "d = Continue" and "q = snd ?r" using c by (simp_all add: prod_eq_iff)
      with inv Cons.prems(2) show ?thesis
        by (auto simp: evaluate_patience)
    next
      case 2
      from Cons.IH [OF inv _ 2] Cons.prems(2) show ?thesis
        by (simp add: evaluate_patience)
    qed
  qed
qed

lemmas policy_defs = evaluate_def improvement_def new_policy_def Let_def

text \<open>
  C4, as the policy has it. On the scores 5, 4, 4, 4 with patience 2 (and \<open>min_delta\<close> 0)
  the second score is still an improvement, so the counter starts counting at the third
  evaluation: the policy continues at the indices 0, 1 and 2 and stops at the fourth
  evaluation, index 3, with best score 4.
\<close>

theorem scores_5_4_4_4_stop_at_fourth:
  "map fst (feed (new_policy 2) 0 [5, 4, 4, 4]) = [Continue, Continue, Continue, Stop] \<and>
   map (counter \<circ> snd) (feed (new_policy 2) 0 [5, 4, 4, 4]) = [0, 0, 1, 2] \<and>
   best_score (snd (feed (new_policy 2) 0 [5, 4, 4, 4] ! 3)) = Some 4 \<and>
   stop_epoch (snd (feed (new_policy 2) 0 [5, 4, 4, 4] ! 3)) = Some 3"
  by (simp add: policy_defs)

text \<open>The third evaluation, index 2, does not stop.\<close>

theorem scores_5_4_4_4_counterexample:
  "fst (feed (new_policy 2) 0 [5, 4, 4, 4] ! 2) \<noteq> Stop"
  by (simp add: policy_defs)

text \<open>
  C5. One evaluation resets the counter to 0 when it recognises an improvement and
  adds 1 to it otherwise (so the new counter is 0 exactly on improvement). Fed any
  sequence of scores from its initial state, with a patience that is not negative, the
  policy has a counter of at most \<open>patience\<close> after every evaluation that continues, and
  the evaluation that stops leaves it at \<open>patience\<close> (at 1 for patience 0).
\<close>

theorem counter_discipline:
  "counter (snd (evaluate s ep p)) = (if improvement s p then 0 else counter p + 1) \<and>
   (counter (snd (evaluate s ep p)) = 0 \<longleftrightarrow> improvement s p) \<and>
   (0 \<le> pat \<longrightarrow>
      (\<forall>(d, q) \<in> set (feed (new_policy pat) ep' ss).
         (d = Continue \<longrightarrow> int (counter q) \<le> pat) \<and>
         (d = Stop \<longrightarrow> int (counter q) = max 1 pat)))"
proof -
  have "(d = Continue \<longrightarrow> int (counter q) \<le> pat) \<and> (d = Stop \<longrightarrow> int (counter q) = max 1 pat)"
    if "0 \<le> pat" and "(d, q) \<in> set (feed (new_policy pat) ep' ss)" for d q
    using feed_counter [of "new_policy pat" d q ep' ss] that
    by (simp add: new_policy_def)
  then show ?thesis by (auto simp: evaluate_counter)
qed

theorem counter_discipline_witness:
  "(0::int) \<le> 2 \<and> fst (feed (new_policy 2) 0 [5, 4, 4, 4] ! 3) = Stop \<and>
   int (counter (snd (feed (new_policy 2) 0 [5, 4, 4, 4] ! 3))) = 2 \<and>
   fst (feed (new_policy 2) 0 [5, 4, 4, 4] ! 2) = Continue \<and>
   int (counter (snd (feed (new_policy 2) 0 [5, 4, 4, 4] ! 2))) \<le> 2"
proof -
  let ?xs = "feed (new_policy 2) 0 [5, 4, 4, 4]"
  have len: "length ?xs = 4" by (simp add: policy_defs)
  then have m3: "(fst (?xs ! 3), snd (?xs ! 3)) \<in> set ?xs" and m2: "(fst (?xs ! 2), snd (?xs ! 2)) \<in> set ?xs"
    by simp_all
  have d3: "fst (?xs ! 3) = Stop" and d2: "fst (?xs ! 2) = Continue"
    by (simp_all add: policy_defs)
  have all: "\<forall>(d, q) \<in> set ?xs.
         (d = Continue \<longrightarrow> int (counter q) \<le> 2) \<and> (d = Stop \<longrightarrow> int (counter q) = max 1 2)"
    using counter_discipline [of 0 0 "new_policy 2" 2 0 "[5, 4, 4, 4]"] by simp
  from all m3 d3 have "int (counter (snd (?xs ! 3))) = max 1 2" by blast
  moreover from all m2 d2 have "int (counter (snd (?xs ! 2))) \<le> 2" by blast
  ultimately show ?thesis using d3 d2 by simp
qed

section \<open>The early stop under the specified policy\<close>

lemma spec_ops [simp]:
  "init EarlyStopping_spec = EarlyStopping_init"
  "call EarlyStopping_spec = EarlyStopping_call"
  "early_stop EarlyStopping_spec = stop_flag"
  by (simp_all add: EarlyStopping_spec_def)

lemma call_policy:
  "policy (EarlyStopping_call obj loss p) = snd (evaluate loss (evaluations obj) (policy obj))"
  "stop_flag (EarlyStopping_call obj loss p) =
     (stop_flag obj \<or> fst (evaluate loss (evaluations obj) (policy obj)) = Stop)"
  by (simp_all add: EarlyStopping_call_def Let_def)

lemma es_after_policy:
  "patience (policy (es_after EarlyStopping_spec cfg ev i)) = cfg_patience cfg \<and>
   (best_score (policy (es_after EarlyStopping_spec cfg ev i)) = None \<or>
    counter (policy (es_after EarlyStopping_spec cfg ev i)) + 1 \<le> i)"
proof (induction i)
  case 0
  then show ?case by (simp add: EarlyStopping_init_def new_policy_def)
next
  case (Suc i)
  have step: "patience (snd (evaluate l n p)) = cfg_patience cfg \<and>
      (best_score (snd (evaluate l n p)) = None \<or> counter (snd (evaluate l n p)) + 1 \<le> Suc i)"
    if "patience p = cfg_patience cfg" and "best_score p = None \<or> counter p + 1 \<le> i" for l n p
    using that by (auto simp: evaluate_def improvement_def Let_def)
  from Suc show ?case
    by (cases "body ev i") (auto simp: call_policy intro: step [THEN conjunct1] dest: step)
qed

lemma reaches_not_stopped:
  "reaches EarlyStopping_spec cfg ev e \<Longrightarrow> \<not> stop_flag (es_after EarlyStopping_spec cfg ev e)"
proof (cases e)
  case 0
  then show ?thesis by (simp add: EarlyStopping_init_def)
next
  case (Suc e')
  assume "reaches EarlyStopping_spec cfg ev e"
  with Suc have "completes EarlyStopping_spec cfg ev e'" by (simp add: reaches_def)
  with Suc show ?thesis
    by (cases "body ev e'") (simp_all add: completes_def)
qed

text \<open>
  Under the specified policy an early stop at epoch \<open>e\<close> comes after at least \<open>patience\<close>
  evaluations without improvement, which follow the first one: \<open>patience \<le> e\<close>, and the
  label \<open>e - patience\<close> of the early-stop path is the clamped one.
\<close>

lemma spec_policy_break_after_patience:
  assumes "reaches EarlyStopping_spec cfg ev e" and "body ev e = Returns l"
    and "early_stop EarlyStopping_spec (es_after EarlyStopping_spec cfg ev (Suc e))"
  shows "cfg_patience cfg \<le> int e"
proof -
  let ?s = "es_after EarlyStopping_spec cfg ev e"
  from reaches_not_stopped [OF assms(1)] assms(2,3)
  have "fst (evaluate l (evaluations ?s) (policy ?s)) = Stop"
    by (simp add: call_policy)
  then have ni: "\<not> improvement l (policy ?s)" and p: "patience (policy ?s) \<le> int (counter (policy ?s)) + 1"
    by (simp_all add: evaluate_Stop)
  from ni have "best_score (policy ?s) \<noteq> None"
    by (cases "best_score (policy ?s)") (simp_all add: improvement_def)
  with es_after_policy [of cfg ev e] p show ?thesis by auto
qed

section \<open>Checkpoints written during the loop\<close>








end
